theory Spec2Isabelle
  imports Complex_Main
begin

section \<open>Numbers and vectors\<close>

text \<open>
  The program computes with C++ \<open>float\<close> and \<open>double\<close>. The camera's angles, vectors
  and times are idealised as real numbers: no rounding, no infinities and no NaN. The scroll
  handler is different: its test \<open>MovementSpeed > 20.0f\<close> is decided by the rounded sum,
  so its arithmetic is binary32 (section below), on a speed that is stored as the real value
  of a finite float. Integer counters (\<open>int\<close>) stay far below their range (the texture
  table has a handful of slots), so they are \<open>int\<close>.
\<close>

datatype vec3 = vec3 (vec_x: real) (vec_y: real) (vec_z: real)

datatype error = OutOfBounds | NullDereference

section \<open>SceneManager: the texture table and the material catalogue\<close>

record TEXTURE_INFO =
  ID :: nat
  tag :: string

record OBJECT_MATERIAL =
  ambientColor :: vec3
  ambientStrength :: real
  diffuseColor :: vec3
  specularColor :: vec3
  shininess :: real
  tag :: string

text \<open>What \<open>stbi_load\<close> hands back for a file it could decode.\<close>

record image =
  width :: int
  height :: int
  colorChannels :: int

datatype gl_format = GL_RGB8 | GL_RGBA8

datatype gl_call =
    glGenTextures nat
  | glBindTexture nat
  | glTexParameteri
  | glTexImage2D gl_format int int
  | glGenerateMipmap

datatype message =
    LoadedImage string int int int
  | NotImplementedChannels int
  | CouldNotLoad string

text \<open>
  \<open>m_textureIDs\<close> is a fixed array of the class; its declaration is in the header, so its
  size is the length of the list. \<open>gl_calls\<close> and \<open>cout\<close> record the calls to OpenGL and
  the lines printed, in order.
\<close>

record SceneManager =
  m_textureIDs :: "TEXTURE_INFO list"
  m_loadedTextures :: int
  m_objectMaterials :: "OBJECT_MATERIAL list"
  gl_calls :: "gl_call list"
  cout :: "message list"

text \<open>
  The tail of \<open>CreateGLTexture\<close> after the upload: mipmaps, unbind, then the write of
  \<open>m_textureIDs[m_loadedTextures]\<close>. A write outside the array is an error of the model.
\<close>

definition register_texture :: "nat \<Rightarrow> string \<Rightarrow> SceneManager \<Rightarrow> error + (bool \<times> SceneManager)" where
  "register_texture textureID tg s =
     (let s1 = s\<lparr>gl_calls := gl_calls s @ [glGenerateMipmap, glBindTexture 0]\<rparr>;
          n = m_loadedTextures s1
      in if 0 \<le> n \<and> n < int (length (m_textureIDs s1))
         then Inr (True,
                s1\<lparr>m_textureIDs :=
                      (m_textureIDs s1)[nat n :=
                         (m_textureIDs s1 ! nat n)\<lparr>ID := textureID, TEXTURE_INFO.tag := tg\<rparr>],
                    m_loadedTextures := n + 1\<rparr>)
         else Inl OutOfBounds)"

text \<open>
  \<open>CreateGLTexture filename tag\<close>. The environment gives the result of \<open>stbi_load\<close>
  (\<open>None\<close> for a null pointer) and the name \<open>glGenTextures\<close> returns.
\<close>

definition CreateGLTexture ::
  "string \<Rightarrow> image option \<Rightarrow> nat \<Rightarrow> string \<Rightarrow> SceneManager \<Rightarrow> error + (bool \<times> SceneManager)" where
  "CreateGLTexture filename loaded textureID tg s =
     (case loaded of
        Some img \<Rightarrow>
          (let s1 = s\<lparr>cout := cout s @ [LoadedImage filename (width img) (height img) (colorChannels img)],
                      gl_calls := gl_calls s @
                        [glGenTextures textureID, glBindTexture textureID,
                         glTexParameteri, glTexParameteri, glTexParameteri, glTexParameteri]\<rparr>
           in if colorChannels img = 3
              then register_texture textureID tg
                     (s1\<lparr>gl_calls := gl_calls s1 @ [glTexImage2D GL_RGB8 (width img) (height img)]\<rparr>)
              else if colorChannels img = 4
              then register_texture textureID tg
                     (s1\<lparr>gl_calls := gl_calls s1 @ [glTexImage2D GL_RGBA8 (width img) (height img)]\<rparr>)
              else Inr (False, s1\<lparr>cout := cout s1 @ [NotImplementedChannels (colorChannels img)]\<rparr>))
      | None \<Rightarrow> Inr (False, s\<lparr>cout := cout s @ [CouldNotLoad filename]\<rparr>))"

text \<open>The loop of \<open>FindTextureSlot\<close>, on its three locals.\<close>

function FindTextureSlot_loop :: "SceneManager \<Rightarrow> string \<Rightarrow> int \<Rightarrow> int \<Rightarrow> bool \<Rightarrow> error + int" where
  "FindTextureSlot_loop s tg textureSlot index bFound =
     (if index < m_loadedTextures s \<and> bFound = False
      then (if 0 \<le> index \<and> index < int (length (m_textureIDs s))
            then (if TEXTURE_INFO.tag (m_textureIDs s ! nat index) = tg
                  then FindTextureSlot_loop s tg index index True
                  else FindTextureSlot_loop s tg textureSlot (index + 1) bFound)
            else Inl OutOfBounds)
      else Inr textureSlot)"
  by pat_completeness auto
termination
  by (relation "measure (\<lambda>(s, tg, textureSlot, index, bFound).
        nat (m_loadedTextures s - index) + (if bFound then 0 else 1))") auto

definition FindTextureSlot :: "SceneManager \<Rightarrow> string \<Rightarrow> error + int" where
  "FindTextureSlot s tg = FindTextureSlot_loop s tg (- 1) 0 False"

text \<open>
  \<open>FindMaterial tag material\<close>: the result is the value returned and the caller's
  \<open>material\<close> after the call.
\<close>

function FindMaterial_loop ::
  "OBJECT_MATERIAL list \<Rightarrow> string \<Rightarrow> OBJECT_MATERIAL \<Rightarrow> nat \<Rightarrow> bool \<Rightarrow> OBJECT_MATERIAL" where
  "FindMaterial_loop ms tg material index bFound =
     (if index < length ms \<and> bFound = False
      then (if OBJECT_MATERIAL.tag (ms ! index) = tg
            then FindMaterial_loop ms tg
                   (material\<lparr>ambientColor := ambientColor (ms ! index),
                             ambientStrength := ambientStrength (ms ! index),
                             diffuseColor := diffuseColor (ms ! index),
                             specularColor := specularColor (ms ! index),
                             shininess := shininess (ms ! index)\<rparr>)
                   index True
            else FindMaterial_loop ms tg material (index + 1) bFound)
      else material)"
  by pat_completeness auto
termination
  by (relation "measure (\<lambda>(ms, tg, material, index, bFound).
        (length ms - index) + (if bFound then 0 else 1))") auto

definition FindMaterial :: "SceneManager \<Rightarrow> string \<Rightarrow> OBJECT_MATERIAL \<Rightarrow> bool \<times> OBJECT_MATERIAL" where
  "FindMaterial s tg material =
     (if length (m_objectMaterials s) = 0 then (False, material)
      else (True, FindMaterial_loop (m_objectMaterials s) tg material 0 False))"


text \<open>
  A run of \<open>CreateGLTexture\<close> calls, as \<open>LoadSceneTextures\<close> makes them one after the
  other. It returns the tags of the calls that returned \<open>true\<close>, in call order.
\<close>

fun register_all ::
  "(string \<times> image option \<times> nat \<times> string) list \<Rightarrow> SceneManager \<Rightarrow> error + (string list \<times> SceneManager)" where
  "register_all [] s = Inr ([], s)"
| "register_all ((filename, loaded, textureID, tg) # rest) s =
     (case CreateGLTexture filename loaded textureID tg s of
        Inl e \<Rightarrow> Inl e
      | Inr (ok, s') \<Rightarrow>
          (case register_all rest s' of
             Inl e \<Rightarrow> Inl e
           | Inr (tgs, s'') \<Rightarrow> Inr ((if ok then [tg] else []) @ tgs, s'')))"

text \<open>The tags of the slots in use, and the bounds that keep the table inside its array.\<close>

definition registered :: "SceneManager \<Rightarrow> string list" where
  "registered s = map TEXTURE_INFO.tag (take (nat (m_loadedTextures s)) (m_textureIDs s))"

definition table_ok :: "SceneManager \<Rightarrow> bool" where
  "table_ok s = (0 \<le> m_loadedTextures s \<and> m_loadedTextures s \<le> int (length (m_textureIDs s)))"

section \<open>binary32 arithmetic\<close>

text \<open>
  A C++ \<open>float\<close> (IEEE 754 binary32): a finite value \<open>m * 2^e\<close> with \<open>|m| < 2^24\<close> and
  \<open>-149 \<le> e \<le> 104\<close>, an infinity, or NaN. The two zeros are one value; no comparison
  tells them apart.
\<close>

datatype float32 = Finite (float_val: real) | PlusInfinity | MinusInfinity | NaN

definition pow2 :: "int \<Rightarrow> real" where
  "pow2 e = (if 0 \<le> e then 2 ^ nat e else 1 / 2 ^ nat (- e))"

text \<open>
  The exponent of the last mantissa bit for a magnitude \<open>a\<close>: the least \<open>e\<close> from \<open>-149\<close>
  up with \<open>a < 2^(e + 24)\<close>, and 104 at most.
\<close>

function quantum :: "real \<Rightarrow> int \<Rightarrow> int" where
  "quantum a e = (if e < 104 \<and> pow2 (e + 24) \<le> a then quantum a (e + 1) else e)"
  by pat_completeness auto
termination
  by (relation "measure (\<lambda>(a, e). nat (104 - e))") auto

definition round_half_even :: "real \<Rightarrow> int" where
  "round_half_even q =
     (let f = \<lfloor>q\<rfloor>
      in if q - of_int f < 1 / 2 then f
         else if 1 / 2 < q - of_int f then f + 1
         else if even f then f else f + 1)"

text \<open>Round to nearest, ties to even; \<open>None\<close> when the rounded magnitude reaches \<open>2^128\<close>.\<close>

definition round32_magnitude :: "real \<Rightarrow> real option" where
  "round32_magnitude a =
     (let e = quantum a (- 149);
          r = of_int (round_half_even (a / pow2 e)) * pow2 e
      in if pow2 128 \<le> r then None else Some r)"

text \<open>
  \<open>round32 x\<close> is the float nearest to the real \<open>x\<close>: what a literal such as \<open>0.1f\<close>
  denotes, what \<open>static_cast<float>\<close> makes of a finite \<open>double\<close> (an infinity past the
  range), and the result of an operation from its exact value.
\<close>

definition round32 :: "real \<Rightarrow> float32" where
  "round32 x =
     (if 0 \<le> x
      then (case round32_magnitude x of None \<Rightarrow> PlusInfinity | Some r \<Rightarrow> Finite r)
      else (case round32_magnitude (- x) of None \<Rightarrow> MinusInfinity | Some r \<Rightarrow> Finite (- r)))"

fun float_mul :: "float32 \<Rightarrow> float32 \<Rightarrow> float32" where
  "float_mul (Finite a) (Finite b) = round32 (a * b)"
| "float_mul (Finite a) PlusInfinity =
     (if a = 0 then NaN else if 0 < a then PlusInfinity else MinusInfinity)"
| "float_mul (Finite a) MinusInfinity =
     (if a = 0 then NaN else if 0 < a then MinusInfinity else PlusInfinity)"
| "float_mul PlusInfinity (Finite b) =
     (if b = 0 then NaN else if 0 < b then PlusInfinity else MinusInfinity)"
| "float_mul MinusInfinity (Finite b) =
     (if b = 0 then NaN else if 0 < b then MinusInfinity else PlusInfinity)"
| "float_mul PlusInfinity PlusInfinity = PlusInfinity"
| "float_mul PlusInfinity MinusInfinity = MinusInfinity"
| "float_mul MinusInfinity PlusInfinity = MinusInfinity"
| "float_mul MinusInfinity MinusInfinity = PlusInfinity"
| "float_mul NaN y = NaN"
| "float_mul x NaN = NaN"

fun float_add :: "float32 \<Rightarrow> float32 \<Rightarrow> float32" where
  "float_add (Finite a) (Finite b) = round32 (a + b)"
| "float_add (Finite a) PlusInfinity = PlusInfinity"
| "float_add (Finite a) MinusInfinity = MinusInfinity"
| "float_add PlusInfinity (Finite b) = PlusInfinity"
| "float_add MinusInfinity (Finite b) = MinusInfinity"
| "float_add PlusInfinity PlusInfinity = PlusInfinity"
| "float_add MinusInfinity MinusInfinity = MinusInfinity"
| "float_add PlusInfinity MinusInfinity = NaN"
| "float_add MinusInfinity PlusInfinity = NaN"
| "float_add NaN y = NaN"
| "float_add x NaN = NaN"

text \<open>\<open><\<close> on floats; every comparison with NaN is false.\<close>

fun float_less :: "float32 \<Rightarrow> float32 \<Rightarrow> bool" where
  "float_less (Finite a) (Finite b) = (a < b)"
| "float_less (Finite a) PlusInfinity = True"
| "float_less MinusInfinity (Finite b) = True"
| "float_less MinusInfinity PlusInfinity = True"
| "float_less x y = False"

section \<open>ViewManager: the camera and the projection mode\<close>

definition vec_add :: "vec3 \<Rightarrow> vec3 \<Rightarrow> vec3" where
  "vec_add a b = vec3 (vec_x a + vec_x b) (vec_y a + vec_y b) (vec_z a + vec_z b)"

definition vec_sub :: "vec3 \<Rightarrow> vec3 \<Rightarrow> vec3" where
  "vec_sub a b = vec3 (vec_x a - vec_x b) (vec_y a - vec_y b) (vec_z a - vec_z b)"

definition vec_scale :: "real \<Rightarrow> vec3 \<Rightarrow> vec3" where
  "vec_scale k a = vec3 (k * vec_x a) (k * vec_y a) (k * vec_z a)"

definition dot :: "vec3 \<Rightarrow> vec3 \<Rightarrow> real" where
  "dot a b = vec_x a * vec_x b + vec_y a * vec_y b + vec_z a * vec_z b"

definition cross :: "vec3 \<Rightarrow> vec3 \<Rightarrow> vec3" where
  "cross a b = vec3 (vec_y a * vec_z b - vec_y b * vec_z a)
                    (vec_z a * vec_x b - vec_z b * vec_x a)
                    (vec_x a * vec_y b - vec_x b * vec_y a)"


text \<open>
  \<open>glm::normalize\<close> multiplies by the inverse square root of \<open>dot a a\<close>. On the zero
  vector the program gets NaN components; here division by zero is 0. No statement below
  normalises the zero vector.
\<close>

definition normalize :: "vec3 \<Rightarrow> vec3" where
  "normalize a = vec_scale (1 / sqrt (dot a a)) a"

definition radians :: "real \<Rightarrow> real" where
  "radians degrees = degrees * (pi / 180)"

definition WINDOW_WIDTH :: int where "WINDOW_WIDTH = 1000"
definition WINDOW_HEIGHT :: int where "WINDOW_HEIGHT = 800"
definition g_ViewName :: string where "g_ViewName = ''view''"
definition g_ProjectionName :: string where "g_ProjectionName = ''projection''"

record Camera =
  Position :: vec3
  Front :: vec3
  Up :: vec3
  Zoom :: real
  MovementSpeed :: real

datatype key =
    GLFW_KEY_ESCAPE | GLFW_KEY_P | GLFW_KEY_O
  | GLFW_KEY_W | GLFW_KEY_S | GLFW_KEY_A | GLFW_KEY_D | GLFW_KEY_Q | GLFW_KEY_E

text \<open>
  The shader manager is the store of the uniforms set so far. \<open>'m\<close> is the type of
  4x4 matrices: \<open>glm::perspective\<close> and \<open>Camera::GetViewMatrix\<close> are library and header
  code, and are parameters of \<open>PrepareSceneView\<close>.
\<close>

datatype 'm uniform = Mat4Value 'm | Vec3Value vec3

record 'm ViewManager =
  m_pShaderManager :: "(string \<Rightarrow> 'm uniform option) option"
  windowShouldClose :: bool
  g_pCamera :: "Camera option"
  gLastX :: real
  gLastY :: real
  gFirstMouse :: bool
  gDeltaTime :: real
  gLastFrame :: real
  perspectiveProjection :: bool
  yaw :: real
  pitch :: real

text \<open>
  \<open>perspectiveProjection\<close> is the member that the constructor and the methods write and
  that the mouse callback reads through \<open>viewManager\<close>; the other fields are the globals
  of the anonymous namespace. \<open>windowShouldClose\<close> is the flag \<open>glfwSetWindowShouldClose\<close>
  sets.
\<close>

text \<open>
  The globals' initialisers and the constructor. \<open>newCamera\<close> is what \<open>new Camera()\<close>
  builds.
\<close>

definition ViewManager_new ::
  "(string \<Rightarrow> 'm uniform option) option \<Rightarrow> Camera \<Rightarrow> 'm ViewManager" where
  "ViewManager_new pShaderManager newCamera =
     \<lparr>m_pShaderManager = pShaderManager,
      windowShouldClose = False,
      g_pCamera = Some (newCamera\<lparr>Position := vec3 0 3.3 12, Front := vec3 0 (- 0.5) (- 2),
                                  Up := vec3 0 1 0, Zoom := 80\<rparr>),
      gLastX = real_of_int WINDOW_WIDTH / 2,
      gLastY = real_of_int WINDOW_HEIGHT / 2,
      gFirstMouse = True,
      gDeltaTime = 0,
      gLastFrame = 0,
      perspectiveProjection = True,
      yaw = - 90,
      pitch = 0\<rparr>"

definition Mouse_Position_Callback :: "real \<Rightarrow> real \<Rightarrow> 'm ViewManager \<Rightarrow> error + 'm ViewManager" where
  "Mouse_Position_Callback xpos ypos s =
     (if \<not> perspectiveProjection s then Inr s
      else
        let s1 = (if gFirstMouse s
                  then s\<lparr>gLastX := xpos, gLastY := ypos, gFirstMouse := False\<rparr> else s);
            xoffset = xpos - gLastX s1;
            yoffset = gLastY s1 - ypos;
            s2 = s1\<lparr>gLastX := xpos, gLastY := ypos\<rparr>;
            sensitivity = 0.1;
            xoffset = xoffset * sensitivity;
            yoffset = yoffset * sensitivity;
            s3 = s2\<lparr>yaw := yaw s2 + xoffset, pitch := pitch s2 + yoffset\<rparr>;
            s4 = (if pitch s3 > 89 then s3\<lparr>pitch := 89\<rparr> else s3);
            s5 = (if pitch s4 < - 89 then s4\<lparr>pitch := - 89\<rparr> else s4);
            direction = vec3 (cos (radians (yaw s5)) * cos (radians (pitch s5)))
                             (sin (radians (pitch s5)))
                             (sin (radians (yaw s5)) * cos (radians (pitch s5)))
        in case g_pCamera s5 of
             None \<Rightarrow> Inl NullDereference
           | Some cam \<Rightarrow> Inr (s5\<lparr>g_pCamera := Some (cam\<lparr>Front := normalize direction\<rparr>)\<rparr>))"

text \<open>
  \<open>scroll_callback\<close>. The first statement,
  \<open>MovementSpeed += static_cast<float>(yoffset) * 0.1f\<close>, in binary32: the cast, the
  product and the sum are each rounded. \<open>yoffset\<close> is a finite \<open>double\<close>.
\<close>

definition adjusted_MovementSpeed :: "real \<Rightarrow> real \<Rightarrow> float32" where
  "adjusted_MovementSpeed speed yoffset =
     float_add (Finite speed) (float_mul (round32 yoffset) (round32 0.1))"

definition scroll_callback :: "real \<Rightarrow> real \<Rightarrow> 'm ViewManager \<Rightarrow> 'm ViewManager" where
  "scroll_callback xoffset yoffset s =
     (case g_pCamera s of
        None \<Rightarrow> s
      | Some cam \<Rightarrow>
          let speed1 = adjusted_MovementSpeed (MovementSpeed cam) yoffset;
              speed2 = (if float_less speed1 (round32 0.1) then round32 0.1 else speed1);
              speed3 = (if float_less (round32 20) speed2 then round32 10 else speed2)
          in s\<lparr>g_pCamera := Some (cam\<lparr>MovementSpeed := float_val speed3\<rparr>)\<rparr>)"

text \<open>
  The speed one event leaves, from the speed before it. In \<open>scroll_callback\<close> the adjusted
  value is never NaN (the speed is finite and so is \<open>yoffset\<close>), and after the two tests
  \<open>speed3\<close> is finite: \<open>scroll_callback_speed\<close> below.
\<close>

definition speed_after_scroll :: "real \<Rightarrow> real \<Rightarrow> real" where
  "speed_after_scroll speed yoffset =
     (let v = adjusted_MovementSpeed speed yoffset
      in if float_less v (Finite (13421773 / 134217728)) then 13421773 / 134217728
         else if float_less (Finite 20) v then 10 else float_val v)"

text \<open>\<open>pressed k\<close> is \<open>glfwGetKey(m_pWindow, k) == GLFW_PRESS\<close> during this pass.\<close>

definition ProcessKeyboardEvents :: "(key \<Rightarrow> bool) \<Rightarrow> 'm ViewManager \<Rightarrow> 'm ViewManager" where
  "ProcessKeyboardEvents pressed s =
     (let s1 = (if pressed GLFW_KEY_ESCAPE then s\<lparr>windowShouldClose := True\<rparr> else s)
      in case g_pCamera s1 of
           None \<Rightarrow> s1
         | Some cam \<Rightarrow>
             let s2 = (if pressed GLFW_KEY_P then s1\<lparr>perspectiveProjection := True\<rparr> else s1);
                 s3 = (if pressed GLFW_KEY_O then s2\<lparr>perspectiveProjection := False\<rparr> else s2)
             in if perspectiveProjection s3
                then
                  let cameraSpeed = MovementSpeed cam * gDeltaTime s3;
                      c1 = (if pressed GLFW_KEY_W
                            then cam\<lparr>Position := vec_add (Position cam) (vec_scale cameraSpeed (Front cam))\<rparr>
                            else cam);
                      c2 = (if pressed GLFW_KEY_S
                            then c1\<lparr>Position := vec_sub (Position c1) (vec_scale cameraSpeed (Front c1))\<rparr>
                            else c1);
                      c3 = (if pressed GLFW_KEY_A
                            then c2\<lparr>Position := vec_sub (Position c2)
                                     (vec_scale cameraSpeed (normalize (cross (Front c2) (Up c2))))\<rparr>
                            else c2);
                      c4 = (if pressed GLFW_KEY_D
                            then c3\<lparr>Position := vec_add (Position c3)
                                     (vec_scale cameraSpeed (normalize (cross (Front c3) (Up c3))))\<rparr>
                            else c3);
                      c5 = (if pressed GLFW_KEY_Q
                            then c4\<lparr>Position := vec_add (Position c4) (vec_scale cameraSpeed (Up c4))\<rparr>
                            else c4);
                      c6 = (if pressed GLFW_KEY_E
                            then c5\<lparr>Position := vec_sub (Position c5) (vec_scale cameraSpeed (Up c5))\<rparr>
                            else c5)
                  in s3\<lparr>g_pCamera := Some c6\<rparr>
                else s3)"

text \<open>
  \<open>PrepareSceneView\<close>, one frame. \<open>currentFrame\<close> is what \<open>glfwGetTime\<close> returns. The
  local \<open>projection\<close> is assigned in the branch (\<open>projection0\<close>) and again after it
  (\<open>projection1\<close>); the uniforms are set when there is a shader manager.
\<close>

definition PrepareSceneView ::
  "(real \<Rightarrow> real \<Rightarrow> real \<Rightarrow> real \<Rightarrow> 'm) \<Rightarrow> (Camera \<Rightarrow> 'm) \<Rightarrow> real \<Rightarrow> (key \<Rightarrow> bool) \<Rightarrow>
   'm ViewManager \<Rightarrow> error + 'm ViewManager" where
  "PrepareSceneView perspective GetViewMatrix currentFrame pressed s =
     (let s1 = s\<lparr>gDeltaTime := currentFrame - gLastFrame s, gLastFrame := currentFrame\<rparr>;
          s2 = ProcessKeyboardEvents pressed s1
      in case g_pCamera s2 of
           None \<Rightarrow> Inl NullDereference
         | Some cam \<Rightarrow>
             let view = GetViewMatrix cam;
                 aspect = real_of_int WINDOW_WIDTH / real_of_int WINDOW_HEIGHT;
                 projection0 = (if \<not> perspectiveProjection s2
                                then Some (perspective (radians 45) aspect 0.1 100) else None);
                 cam1 = (if \<not> perspectiveProjection s2
                         then cam\<lparr>Position := vec3 0 5 14, Front := vec3 0 (- 0.2) (- 1),
                                  Up := vec3 0 1 0\<rparr>
                         else cam);
                 projection1 = perspective (radians (Zoom cam1)) aspect 0.1 100;
                 s3 = s2\<lparr>g_pCamera := Some cam1\<rparr>
             in case m_pShaderManager s3 of
                  None \<Rightarrow> Inr s3
                | Some shader \<Rightarrow>
                    Inr (s3\<lparr>m_pShaderManager :=
                           Some (shader(g_ViewName \<mapsto> Mat4Value view,
                                        g_ProjectionName \<mapsto> Mat4Value projection1,
                                        ''viewPosition'' \<mapsto> Vec3Value (Position cam1)))\<rparr>))"

text \<open>The callbacks delivered one after the other.\<close>

fun Mouse_Position_Callbacks :: "(real \<times> real) list \<Rightarrow> 'm ViewManager \<Rightarrow> error + 'm ViewManager" where
  "Mouse_Position_Callbacks [] s = Inr s"
| "Mouse_Position_Callbacks ((xpos, ypos) # rest) s =
     (case Mouse_Position_Callback xpos ypos s of
        Inl e \<Rightarrow> Inl e
      | Inr s' \<Rightarrow> Mouse_Position_Callbacks rest s')"

fun scroll_callbacks :: "(real \<times> real) list \<Rightarrow> 'm ViewManager \<Rightarrow> 'm ViewManager" where
  "scroll_callbacks [] s = s"
| "scroll_callbacks ((xoffset, yoffset) # rest) s = scroll_callbacks rest (scroll_callback xoffset yoffset s)"


section \<open>The scene's own data, and small instances\<close>

text \<open>\<open>DefineObjectMaterials\<close>: the four \<open>push_back\<close> calls.\<close>

definition tableMaterial :: OBJECT_MATERIAL where
  "tableMaterial = \<lparr>ambientColor = vec3 0.1 0.1 0.1, ambientStrength = 0.5,
     diffuseColor = vec3 0.2 0.2 0.3, specularColor = vec3 0.8 0.8 1.0, shininess = 1.0,
     tag = ''table''\<rparr>"

definition blackPlasticMaterial :: OBJECT_MATERIAL where
  "blackPlasticMaterial = \<lparr>ambientColor = vec3 0.1 0.1 0.1, ambientStrength = 0.1,
     diffuseColor = vec3 0.2 0.2 0.2, specularColor = vec3 0.1 0.1 0.1, shininess = 32.0,
     tag = ''blackPlastic''\<rparr>"

definition greyPlasticMaterial :: OBJECT_MATERIAL where
  "greyPlasticMaterial = \<lparr>ambientColor = vec3 0.3 0.3 0.3, ambientStrength = 0.3,
     diffuseColor = vec3 0.3 0.3 0.3, specularColor = vec3 0.3 0.3 0.3, shininess = 32.0,
     tag = ''greyPlastic''\<rparr>"

definition screenMaterial :: OBJECT_MATERIAL where
  "screenMaterial = \<lparr>ambientColor = vec3 0.2 0.2 0.2, ambientStrength = 0.8,
     diffuseColor = vec3 0.4 0.4 0.5, specularColor = vec3 1.0 1.0 1.0, shininess = 256.0,
     tag = ''screen''\<rparr>"

definition DefineObjectMaterials :: "SceneManager \<Rightarrow> SceneManager" where
  "DefineObjectMaterials s =
     s\<lparr>m_objectMaterials := m_objectMaterials s @
          [tableMaterial, blackPlasticMaterial, greyPlasticMaterial, screenMaterial]\<rparr>"

text \<open>
  A scene manager with nothing loaded and sixteen texture slots (the number the comments
  of \<open>BindGLTextures\<close> and \<open>LoadSceneTextures\<close> give), and a caller's material before
  the call.
\<close>

definition emptyScene :: SceneManager where
  "emptyScene = \<lparr>m_textureIDs = replicate 16 \<lparr>ID = 0, tag = []\<rparr>, m_loadedTextures = 0,
     m_objectMaterials = [], gl_calls = [], cout = []\<rparr>"

definition callerMaterial :: OBJECT_MATERIAL where
  "callerMaterial = \<lparr>ambientColor = vec3 7 7 7, ambientStrength = 7,
     diffuseColor = vec3 7 7 7, specularColor = vec3 7 7 7, shininess = 7,
     tag = ''caller''\<rparr>"

text \<open>
  A view manager as the constructor leaves it, with an empty uniform store. Matrices are
  kept as the list of the arguments they were built from.
\<close>

definition sampleCamera :: Camera where
  "sampleCamera = \<lparr>Position = vec3 0 0 0, Front = vec3 0 0 (- 1), Up = vec3 0 1 0,
     Zoom = 45, MovementSpeed = 2.5\<rparr>"

definition sampleView :: "real list ViewManager" where
  "sampleView = ViewManager_new (Some (\<lambda>name. None)) sampleCamera"

definition samplePerspective :: "real \<Rightarrow> real \<Rightarrow> real \<Rightarrow> real \<Rightarrow> real list" where
  "samplePerspective fovy aspect zNear zFar = [fovy, aspect, zNear, zFar]"

definition sampleGetViewMatrix :: "Camera \<Rightarrow> real list" where
  "sampleGetViewMatrix cam = [vec_x (Position cam), vec_y (Position cam), vec_z (Position cam)]"

text \<open>A camera that was given a speed of 25, and its view manager.\<close>

definition fastCamera :: Camera where
  "fastCamera = sampleCamera\<lparr>MovementSpeed := 25\<rparr>"

definition fastView :: "real list ViewManager" where
  "fastView = sampleView\<lparr>g_pCamera := Some fastCamera\<rparr>"

declare FindTextureSlot_loop.simps [simp del]
declare quantum.simps [simp del]
declare FindMaterial_loop.simps [simp del]

section \<open>The texture table\<close>

lemma length_registered: "table_ok s \<Longrightarrow> length (registered s) = nat (m_loadedTextures s)"
  by (auto simp: registered_def table_ok_def)

lemma registered_nth:
  "table_ok s \<Longrightarrow> k < nat (m_loadedTextures s) \<Longrightarrow>
   registered s ! k = TEXTURE_INFO.tag (m_textureIDs s ! k)"
  by (auto simp: registered_def table_ok_def)

lemma FindTextureSlot_loop_found: "FindTextureSlot_loop s tg slot index True = Inr slot"
  by (simp add: FindTextureSlot_loop.simps)

text \<open>When no slot from \<open>k\<close> on carries the tag, the loop runs off the end.\<close>

lemma FindTextureSlot_loop_miss:
  "table_ok s \<Longrightarrow> k \<le> length (registered s) \<Longrightarrow>
   \<forall>j. k \<le> j \<and> j < length (registered s) \<longrightarrow> registered s ! j \<noteq> tg \<Longrightarrow>
   FindTextureSlot_loop s tg slot (int k) False = Inr slot"
proof (induction "length (registered s) - k" arbitrary: k)
  case 0
  then have "\<not> int k < m_loadedTextures s" by (simp add: length_registered)
  then show ?case by (simp add: FindTextureSlot_loop.simps)
next
  case (Suc d)
  then have k: "k < nat (m_loadedTextures s)" by (simp add: length_registered)
  with Suc.prems have inb: "int k < int (length (m_textureIDs s))" "int k < m_loadedTextures s"
    by (auto simp: table_ok_def)
  from Suc.prems k have ne: "TEXTURE_INFO.tag (m_textureIDs s ! k) \<noteq> tg"
    using registered_nth [of s k] by (auto simp: length_registered)
  have "FindTextureSlot_loop s tg slot (int (Suc k)) False = Inr slot"
    using Suc by (intro Suc.hyps) (auto simp: length_registered)
  then show ?case
    using inb ne by (subst FindTextureSlot_loop.simps) (simp add: add.commute)
qed

text \<open>When slot \<open>i\<close> is the first from \<open>k\<close> on that carries the tag, the loop stops there.\<close>

lemma FindTextureSlot_loop_hit:
  "table_ok s \<Longrightarrow> k \<le> i \<Longrightarrow> i < length (registered s) \<Longrightarrow> registered s ! i = tg \<Longrightarrow>
   \<forall>j. k \<le> j \<and> j < i \<longrightarrow> registered s ! j \<noteq> tg \<Longrightarrow>
   FindTextureSlot_loop s tg slot (int k) False = Inr (int i)"
proof (induction "i - k" arbitrary: k slot)
  case 0
  then have ik: "i = k" by simp
  with 0 have inb: "int k < int (length (m_textureIDs s))" "int k < m_loadedTextures s"
    by (auto simp: table_ok_def length_registered)
  from 0 ik have eq: "TEXTURE_INFO.tag (m_textureIDs s ! k) = tg"
    using registered_nth [of s k] by (auto simp: length_registered)
  show ?case using inb eq ik
    by (subst FindTextureSlot_loop.simps) (simp add: FindTextureSlot_loop_found)
next
  case (Suc d)
  then have ki: "k < i" by simp
  with Suc.prems have inb: "int k < int (length (m_textureIDs s))" "int k < m_loadedTextures s"
    by (auto simp: table_ok_def length_registered)
  from Suc.prems ki have ne: "TEXTURE_INFO.tag (m_textureIDs s ! k) \<noteq> tg"
    using registered_nth [of s k] by (auto simp: length_registered)
  have "FindTextureSlot_loop s tg slot (int (Suc k)) False = Inr (int i)"
    using Suc ki by (intro Suc.hyps) auto
  then show ?case
    using inb ne by (subst FindTextureSlot_loop.simps) (simp add: add.commute)
qed

lemma register_texture_ok:
  "table_ok s \<Longrightarrow> register_texture textureID tg s = Inr (ok, s') \<Longrightarrow>
   ok \<and> table_ok s' \<and> registered s' = registered s @ [tg]"
  by (auto simp: register_texture_def table_ok_def registered_def Let_def take_Suc_conv_app_nth
      nat_add_distrib split: if_splits)

lemma CreateGLTexture_registered:
  "table_ok s \<Longrightarrow> CreateGLTexture filename loaded textureID tg s = Inr (ok, s') \<Longrightarrow>
   table_ok s' \<and> registered s' = registered s @ (if ok then [tg] else [])"
  unfolding CreateGLTexture_def
  by (auto simp: Let_def table_ok_def registered_def split: option.splits if_splits
      dest!: register_texture_ok [unfolded table_ok_def registered_def, rotated])

lemma register_all_registered:
  "table_ok s \<Longrightarrow> register_all reqs s = Inr (tgs, s') \<Longrightarrow>
   table_ok s' \<and> registered s' = registered s @ tgs"
proof (induction reqs arbitrary: s tgs)
  case Nil
  then show ?case by simp
next
  case (Cons r reqs)
  obtain filename loaded textureID tg where r: "r = (filename, loaded, textureID, tg)"
    by (cases r)
  from Cons.prems r obtain ok s1 tgs1 where
    c: "CreateGLTexture filename loaded textureID tg s = Inr (ok, s1)" and
    a: "register_all reqs s1 = Inr (tgs1, s')" and
    t: "tgs = (if ok then [tg] else []) @ tgs1"
    by (auto split: sum.splits prod.splits)
  from CreateGLTexture_registered [OF Cons.prems(1) c]
  have s1: "table_ok s1" "registered s1 = registered s @ (if ok then [tg] else [])" by auto
  from Cons.IH [OF s1(1) a] s1(2) t show ?case by simp
qed

text \<open>
  C2. After a run of \<open>CreateGLTexture\<close> calls on a table that starts empty, with \<open>tags\<close>
  the tags of the calls that returned true, in call order: \<open>FindTextureSlot\<close> returns -1 for
  a tag that is not among them, and for a tag among them the 0-based position of its first
  occurrence; when no tag was registered twice, that is each tag's registration order.
\<close>

theorem FindTextureSlot_registration_order:
  assumes "m_loadedTextures s0 = 0" and "register_all reqs s0 = Inr (tags, s)"
  shows "(tg \<notin> set tags \<longrightarrow> FindTextureSlot s tg = Inr (- 1))
       \<and> (\<forall>i<length tags. tags ! i = tg \<and> (\<forall>j<i. tags ! j \<noteq> tg)
             \<longrightarrow> FindTextureSlot s tg = Inr (int i))
       \<and> (distinct tags \<longrightarrow> (\<forall>i<length tags. FindTextureSlot s (tags ! i) = Inr (int i)))"
proof -
  from assms(1) have ok0: "table_ok s0" and r0: "registered s0 = []"
    by (simp_all add: table_ok_def registered_def)
  from register_all_registered [OF ok0 assms(2)] r0
  have ok: "table_ok s" and reg: "registered s = tags" by simp_all
  have miss: "FindTextureSlot s tg = Inr (- 1)" if "tg \<notin> set tags"
    unfolding FindTextureSlot_def
    using FindTextureSlot_loop_miss [OF ok, of 0 tg "- 1"] that reg by (auto simp: in_set_conv_nth)
  have hit: "FindTextureSlot s t = Inr (int i)"
    if "i < length tags" "tags ! i = t" "\<forall>j<i. tags ! j \<noteq> t" for i t
    unfolding FindTextureSlot_def
    using FindTextureSlot_loop_hit [OF ok, of 0 i t "- 1"] that reg by auto
  have dist: "FindTextureSlot s (tags ! i) = Inr (int i)" if "distinct tags" "i < length tags" for i
    using that by (intro hit) (auto simp: nth_eq_iff_index_eq)
  from miss hit dist show ?thesis by blast
qed

theorem FindTextureSlot_registration_order_witness:
  "\<exists>s. register_all
          [(''a.png'', Some \<lparr>width = 2, height = 2, colorChannels = 3\<rparr>, 1, ''a.png''),
           (''grey.png'', Some \<lparr>width = 2, height = 2, colorChannels = 1\<rparr>, 2, ''grey.png''),
           (''b.png'', Some \<lparr>width = 2, height = 2, colorChannels = 4\<rparr>, 3, ''b.png'')]
          emptyScene = Inr ([''a.png'', ''b.png''], s)
       \<and> FindTextureSlot s ''a.png'' = Inr 0
       \<and> FindTextureSlot s ''b.png'' = Inr 1
       \<and> FindTextureSlot s ''grey.png'' = Inr (- 1)
       \<and> FindTextureSlot s ''c.png'' = Inr (- 1)"
proof -
  let ?reqs = "[(''a.png'', Some \<lparr>width = 2, height = 2, colorChannels = 3\<rparr>, 1::nat, ''a.png''),
           (''grey.png'', Some \<lparr>width = 2, height = 2, colorChannels = 1\<rparr>, 2, ''grey.png''),
           (''b.png'', Some \<lparr>width = 2, height = 2, colorChannels = 4\<rparr>, 3, ''b.png'')]"
  have e: "m_loadedTextures emptyScene = 0" by (simp add: emptyScene_def)
  obtain s where r: "register_all ?reqs emptyScene = Inr ([''a.png'', ''b.png''], s)"
    by (simp add: CreateGLTexture_def register_texture_def emptyScene_def Let_def)
  have a: "FindTextureSlot s ''a.png'' = Inr 0"
    using FindTextureSlot_registration_order [OF e r, of "''a.png''"] by auto
  have b: "FindTextureSlot s ''b.png'' = Inr 1"
    using FindTextureSlot_registration_order [OF e r, of "''b.png''"] by auto
  have g: "FindTextureSlot s ''grey.png'' = Inr (- 1)"
    using FindTextureSlot_registration_order [OF e r, of "''grey.png''"] by simp
  have c: "FindTextureSlot s ''c.png'' = Inr (- 1)"
    using FindTextureSlot_registration_order [OF e r, of "''c.png''"] by simp
  from r a b g c show ?thesis by blast
qed

text \<open>
  C7. When the decoded image has neither 3 nor 4 channels, \<open>CreateGLTexture\<close> returns false,
  and the count of loaded textures and every slot of the table are as before.
\<close>

theorem CreateGLTexture_other_channels:
  assumes "colorChannels img \<noteq> 3" and "colorChannels img \<noteq> 4"
  shows "\<exists>s'. CreateGLTexture filename (Some img) textureID tg s = Inr (False, s')
            \<and> m_loadedTextures s' = m_loadedTextures s
            \<and> m_textureIDs s' = m_textureIDs s"
  using assms by (simp add: CreateGLTexture_def Let_def)

theorem CreateGLTexture_other_channels_witness:
  "\<exists>s'. CreateGLTexture ''grey.png'' (Some \<lparr>width = 2, height = 2, colorChannels = 1\<rparr>) 5 ''grey'' emptyScene
           = Inr (False, s')
        \<and> m_loadedTextures s' = 0
        \<and> m_textureIDs s' = replicate 16 \<lparr>ID = 0, tag = []\<rparr>"
  using CreateGLTexture_other_channels
    [of "\<lparr>width = 2, height = 2, colorChannels = 1\<rparr>" "''grey.png''" 5 "''grey''" emptyScene]
  by (simp add: emptyScene_def)

section \<open>The material catalogue\<close>

lemma FindMaterial_loop_found: "FindMaterial_loop ms tg material index True = material"
  by (simp add: FindMaterial_loop.simps)

lemma FindMaterial_loop_miss:
  "\<forall>j. index \<le> j \<and> j < length ms \<longrightarrow> OBJECT_MATERIAL.tag (ms ! j) \<noteq> tg \<Longrightarrow>
   FindMaterial_loop ms tg material index False = material"
proof (induction "length ms - index" arbitrary: index)
  case 0
  then show ?case by (simp add: FindMaterial_loop.simps)
next
  case (Suc d)
  then have "FindMaterial_loop ms tg material (Suc index) False = material"
    by (intro Suc.hyps) auto
  with Suc.prems Suc.hyps(2) show ?case
    by (subst FindMaterial_loop.simps) auto
qed

lemma FindMaterial_loop_absent:
  assumes "tg \<notin> OBJECT_MATERIAL.tag ` set ms"
  shows "FindMaterial_loop ms tg material 0 False = material"
proof (rule FindMaterial_loop_miss, intro allI impI)
  fix j assume "0 \<le> j \<and> j < length ms"
  then have "ms ! j \<in> set ms" by simp
  with assms show "OBJECT_MATERIAL.tag (ms ! j) \<noteq> tg" by blast
qed

lemma FindMaterial_loop_hit:
  "k \<le> i \<Longrightarrow> i < length ms \<Longrightarrow> OBJECT_MATERIAL.tag (ms ! i) = tg \<Longrightarrow>
   \<forall>j. k \<le> j \<and> j < i \<longrightarrow> OBJECT_MATERIAL.tag (ms ! j) \<noteq> tg \<Longrightarrow>
   FindMaterial_loop ms tg material k False =
     material\<lparr>ambientColor := ambientColor (ms ! i),
              ambientStrength := ambientStrength (ms ! i),
              diffuseColor := diffuseColor (ms ! i),
              specularColor := specularColor (ms ! i),
              shininess := shininess (ms ! i)\<rparr>"
proof (induction "i - k" arbitrary: k)
  case 0
  then have "i = k" by simp
  with 0 show ?case
    by (subst FindMaterial_loop.simps) (simp add: FindMaterial_loop_found)
next
  case (Suc d)
  then have ki: "k < i" by simp
  with Suc.prems have ne: "OBJECT_MATERIAL.tag (ms ! k) \<noteq> tg" by simp
  have "FindMaterial_loop ms tg material (Suc k) False =
     material\<lparr>ambientColor := ambientColor (ms ! i),
              ambientStrength := ambientStrength (ms ! i),
              diffuseColor := diffuseColor (ms ! i),
              specularColor := specularColor (ms ! i),
              shininess := shininess (ms ! i)\<rparr>"
    using Suc ki by (intro Suc.hyps) auto
  with ne ki Suc.prems show ?case
    by (subst FindMaterial_loop.simps) simp
qed

text \<open>
  A tag that some entry carries: the five values of the first such entry are copied into
  the caller's material, whose own tag is not assigned.
\<close>

lemma FindMaterial_first_match:
  assumes "i < length (m_objectMaterials s)"
    and "OBJECT_MATERIAL.tag (m_objectMaterials s ! i) = tg"
    and "\<forall>j<i. OBJECT_MATERIAL.tag (m_objectMaterials s ! j) \<noteq> tg"
  shows "FindMaterial s tg material =
     (True, material\<lparr>ambientColor := ambientColor (m_objectMaterials s ! i),
              ambientStrength := ambientStrength (m_objectMaterials s ! i),
              diffuseColor := diffuseColor (m_objectMaterials s ! i),
              specularColor := specularColor (m_objectMaterials s ! i),
              shininess := shininess (m_objectMaterials s ! i)\<rparr>)"
  using assms FindMaterial_loop_hit [of 0 i "m_objectMaterials s" tg material]
  by (auto simp: FindMaterial_def)

text \<open>
  C9. The value \<open>FindMaterial\<close> returns is false exactly when the catalogue is empty, and
  true for every tag once one material is registered; on a tag that no entry carries, in a
  catalogue that is not empty, it returns true and the caller's material is as it was.
\<close>

theorem FindMaterial_return_value:
  "(fst (FindMaterial s tg material) = False \<longleftrightarrow> m_objectMaterials s = [])
   \<and> (m_objectMaterials s \<noteq> [] \<longrightarrow> fst (FindMaterial s tg material) = True)
   \<and> (m_objectMaterials s \<noteq> [] \<and> tg \<notin> OBJECT_MATERIAL.tag ` set (m_objectMaterials s)
        \<longrightarrow> FindMaterial s tg material = (True, material))"
  by (simp add: FindMaterial_def FindMaterial_loop_absent)

theorem FindMaterial_return_value_witness:
  "fst (FindMaterial emptyScene ''glass'' callerMaterial) = False
   \<and> fst (FindMaterial (DefineObjectMaterials emptyScene) ''screen'' callerMaterial) = True
   \<and> FindMaterial (DefineObjectMaterials emptyScene) ''glass'' callerMaterial = (True, callerMaterial)"
  using FindMaterial_return_value [of emptyScene "''glass''" callerMaterial]
    FindMaterial_return_value [of "DefineObjectMaterials emptyScene" "''screen''" callerMaterial]
    FindMaterial_return_value [of "DefineObjectMaterials emptyScene" "''glass''" callerMaterial]
  by (simp add: DefineObjectMaterials_def emptyScene_def
      tableMaterial_def blackPlasticMaterial_def greyPlasticMaterial_def screenMaterial_def)

text \<open>
  C1. The claim asks for "not found" on a tag that is not in the catalogue. With the four
  materials of \<open>DefineObjectMaterials\<close> registered, \<open>FindMaterial\<close> on the tag \<open>wood\<close>
  returns true; the caller's material is untouched.
\<close>

theorem FindMaterial_unregistered_tag:
  "FindMaterial (DefineObjectMaterials emptyScene) ''wood'' callerMaterial = (True, callerMaterial)"
  by (simp add: FindMaterial_def FindMaterial_loop_absent DefineObjectMaterials_def emptyScene_def
      tableMaterial_def blackPlasticMaterial_def greyPlasticMaterial_def screenMaterial_def)

section \<open>The camera\<close>

lemma Mouse_Position_Callback_step:
  assumes "perspectiveProjection s" and "g_pCamera s = Some cam"
  shows "\<exists>s' cam'. Mouse_Position_Callback xpos ypos s = Inr s'
           \<and> - 89 \<le> pitch s' \<and> pitch s' \<le> 89
           \<and> perspectiveProjection s' \<and> g_pCamera s' = Some cam'"
  using assms by (simp add: Mouse_Position_Callback_def Let_def)

text \<open>
  C3. In perspective mode, with a camera, after any run of one or more mouse samples the
  callback has returned and the pitch lies between -89 and 89, whatever the samples were.
  The run is any run, so this holds after each sample of a longer one.
\<close>

theorem Mouse_Position_Callbacks_pitch_range:
  assumes "perspectiveProjection s" and "g_pCamera s = Some cam" and "samples \<noteq> []"
  shows "\<exists>s'. Mouse_Position_Callbacks samples s = Inr s' \<and> - 89 \<le> pitch s' \<and> pitch s' \<le> 89"
  using assms
proof (induction samples arbitrary: s cam)
  case Nil
  then show ?case by simp
next
  case (Cons p rest)
  obtain xpos ypos where p: "p = (xpos, ypos)" by (cases p)
  from Mouse_Position_Callback_step [OF Cons.prems(1,2), of xpos ypos]
  obtain s1 cam1 where s1: "Mouse_Position_Callback xpos ypos s = Inr s1"
    "- 89 \<le> pitch s1" "pitch s1 \<le> 89" "perspectiveProjection s1" "g_pCamera s1 = Some cam1"
    by blast
  show ?case
  proof (cases rest)
    case Nil
    with p s1 show ?thesis by simp
  next
    case (Cons q qs)
    then have "rest \<noteq> []" by simp
    from Cons.IH [OF s1(4,5) this] p s1(1) show ?thesis by simp
  qed
qed

theorem Mouse_Position_Callbacks_pitch_range_witness:
  "\<exists>s'. Mouse_Position_Callbacks [(500, 400), (500, - 100000), (500, 900000)] sampleView = Inr s'
        \<and> - 89 \<le> pitch s' \<and> pitch s' \<le> 89"
  using Mouse_Position_Callbacks_pitch_range
    [of sampleView _ "[(500, 400), (500, - 100000), (500, 900000)]"]
  by (simp add: sampleView_def ViewManager_new_def)

subsection \<open>The scroll handler\<close>

lemma round32_not_NaN: "round32 x \<noteq> NaN"
  by (simp add: round32_def split: option.splits)

lemma pow2_powr: "pow2 e = 2 powr (of_int e)"
  by (simp add: pow2_def powr_real_of_int inverse_eq_divide)

lemma pow2_mono: "e \<le> e' \<Longrightarrow> pow2 e \<le> pow2 e'"
  by (simp add: pow2_powr)

lemma pow2_pos: "0 < pow2 e"
  by (simp add: pow2_powr)

lemma quantum_stop: "a < pow2 (e + 24) \<Longrightarrow> quantum a e = e"
  by (subst quantum.simps) simp

lemma quantum_next: "e < 104 \<Longrightarrow> pow2 (e + 24) \<le> a \<Longrightarrow> quantum a e = quantum a (e + 1)"
  by (subst quantum.simps) simp

lemma quantum_eq:
  assumes "e0 \<le> e" and "e \<le> 104" and "a < pow2 (e + 24)" and "e0 < e \<Longrightarrow> pow2 (e + 23) \<le> a"
  shows "quantum a e0 = e"
  using assms
proof (induction "nat (e - e0)" arbitrary: e0)
  case 0
  then have "e0 = e" by simp
  with 0 show ?case by (simp add: quantum_stop)
next
  case (Suc d)
  then have lt: "e0 < e" by linarith
  have "pow2 (e0 + 24) \<le> pow2 (e + 23)" using lt by (intro pow2_mono) simp
  also have "\<dots> \<le> a" using Suc.prems(4) lt by simp
  finally have "quantum a e0 = quantum a (e0 + 1)"
    using lt Suc.prems(2) by (intro quantum_next) simp_all
  also have "\<dots> = e"
    using Suc lt by (intro Suc.hyps) auto
  finally show ?case .
qed

lemma round_half_even_near:
  assumes "\<bar>q - of_int m\<bar> < 1 / 2"
  shows "round_half_even q = m"
proof (cases "of_int m \<le> q")
  case True
  with assms have "\<lfloor>q\<rfloor> = m" by (intro floor_unique) (simp_all add: abs_if split: if_splits)
  with assms True show ?thesis by (simp add: round_half_even_def Let_def abs_if)
next
  case False
  with assms have f: "\<lfloor>q\<rfloor> = m - 1" by (intro floor_unique) (simp_all add: abs_if split: if_splits)
  with assms False show ?thesis by (simp add: round_half_even_def Let_def abs_if)
qed

text \<open>Rounding with the exponent and the mantissa given.\<close>

lemma round32_eval:
  assumes "0 \<le> a" and "- 149 \<le> e" and "e \<le> 104"
    and "a < pow2 (e + 24)" and "- 149 < e \<Longrightarrow> pow2 (e + 23) \<le> a"
    and "\<bar>a / pow2 e - of_int m\<bar> < 1 / 2" and "of_int m * pow2 e < pow2 128"
  shows "round32 a = Finite (of_int m * pow2 e)"
proof -
  have q: "quantum a (- 149) = e" using assms(2-5) by (intro quantum_eq) simp_all
  have r: "round_half_even (a / pow2 e) = m" using assms(6) by (rule round_half_even_near)
  show ?thesis using assms(1,7) by (simp add: round32_def round32_magnitude_def q r Let_def)
qed

text \<open>The three literals of the handler: \<open>0.1f\<close>, \<open>20.0f\<close> and \<open>10.0f\<close>.\<close>

lemma round32_tenth: "round32 0.1 = Finite (13421773 / 134217728)"
  using round32_eval [of "0.1" "- 27" 13421773] by (simp add: pow2_def)

lemma round32_20: "round32 20 = Finite 20"
  using round32_eval [of 20 "- 19" 10485760] by (simp add: pow2_def)

lemma round32_10: "round32 10 = Finite 10"
  using round32_eval [of 10 "- 20" 10485760] by (simp add: pow2_def)

lemma float_add_Finite_not_NaN: "u \<noteq> NaN \<Longrightarrow> float_add (Finite a) u \<noteq> NaN"
  by (cases u) (simp_all add: round32_not_NaN)

lemma float_mul_tenth_not_NaN: "t \<noteq> NaN \<Longrightarrow> float_mul t (round32 0.1) \<noteq> NaN"
  by (cases t) (simp_all add: round32_tenth round32_not_NaN)

lemma adjusted_MovementSpeed_not_NaN: "adjusted_MovementSpeed speed yoffset \<noteq> NaN"
  unfolding adjusted_MovementSpeed_def
  by (intro float_add_Finite_not_NaN float_mul_tenth_not_NaN round32_not_NaN)

lemma scroll_callback_speed:
  assumes "g_pCamera s = Some cam"
  shows "g_pCamera (scroll_callback xoffset yoffset s) =
           Some (cam\<lparr>MovementSpeed := speed_after_scroll (MovementSpeed cam) yoffset\<rparr>)"
proof (cases "adjusted_MovementSpeed (MovementSpeed cam) yoffset")
  case (Finite x)
  with assms show ?thesis
    by (simp add: scroll_callback_def speed_after_scroll_def Let_def round32_tenth round32_20 round32_10)
next
  case PlusInfinity
  with assms show ?thesis
    by (simp add: scroll_callback_def speed_after_scroll_def Let_def round32_tenth round32_20 round32_10)
next
  case MinusInfinity
  with assms show ?thesis
    by (simp add: scroll_callback_def speed_after_scroll_def Let_def round32_tenth round32_20 round32_10)
next
  case NaN
  with adjusted_MovementSpeed_not_NaN show ?thesis by blast
qed

lemma speed_after_scroll_range:
  "0.1 \<le> speed_after_scroll speed yoffset \<and> speed_after_scroll speed yoffset \<le> 20"
  using adjusted_MovementSpeed_not_NaN [of speed yoffset]
  by (cases "adjusted_MovementSpeed speed yoffset") (simp_all add: speed_after_scroll_def Let_def)

lemma scroll_callbacks_speed:
  assumes "g_pCamera s = Some cam"
  shows "g_pCamera (scroll_callbacks events s) =
           Some (cam\<lparr>MovementSpeed := fold (\<lambda>(xoffset, yoffset) v. speed_after_scroll v yoffset)
                                           events (MovementSpeed cam)\<rparr>)"
  using assms
proof (induction events arbitrary: s cam)
  case Nil
  then show ?case by simp
next
  case (Cons e events)
  obtain xoffset yoffset where e: "e = (xoffset, yoffset)" by (cases e)
  from Cons.IH [OF scroll_callback_speed [OF Cons.prems, of xoffset yoffset]] e
  show ?case by simp
qed

text \<open>
  The model at three inputs where the rounded sum and the exact sum fall on different sides
  of 20. From 2.5, an offset of 175.000001 is cast to 175, the product rounds to 17.5 and the
  sum is the float 20: the speed stays 20. From the float nearest 19.95, an offset of 0.5
  gives a sum that rounds to 20 as well. And 25 events of offset 7 from 2.5 reach the float
  20.000001907 at the last event (the exact sum is 20), which resets the speed to 10.
\<close>

lemma speed_after_scroll_rounds_to_20: "speed_after_scroll 2.5 175.000001 = 20"
proof -
  have r1: "round32 (175000001 / 1000000) = Finite (175)"
    using round32_eval [of "175000001 / 1000000" "- 16" 11468800] by (simp add: pow2_def)
  have r2: "round32 (2348810275 / 134217728) = Finite (35 / 2)"
    using round32_eval [of "2348810275 / 134217728" "- 19" 9175040] by (simp add: pow2_def)
  have r3: "round32 (20) = Finite (20)"
    using round32_eval [of "20" "- 19" 10485760] by (simp add: pow2_def)
  show ?thesis
    by (simp add: speed_after_scroll_def adjusted_MovementSpeed_def Let_def round32_tenth r1 r2 r3)
qed

lemma speed_after_scroll_rounds_to_20_again: "speed_after_scroll (5229773 / 262144) 0.5 = 20"
proof -
  have r1: "round32 (1 / 2) = Finite (1 / 2)"
    using round32_eval [of "1 / 2" "- 24" 8388608] by (simp add: pow2_def)
  have r2: "round32 (13421773 / 268435456) = Finite (13421773 / 268435456)"
    using round32_eval [of "13421773 / 268435456" "- 28" 13421773] by (simp add: pow2_def)
  have r3: "round32 (5368709325 / 268435456) = Finite (20)"
    using round32_eval [of "5368709325 / 268435456" "- 19" 10485760] by (simp add: pow2_def)
  show ?thesis
    by (simp add: speed_after_scroll_def adjusted_MovementSpeed_def Let_def round32_tenth r1 r2 r3)
qed

lemma speed_after_25_events:
  "fold (\<lambda>(xoffset, yoffset) v. speed_after_scroll v yoffset) (replicate 25 (0, 7)) 2.5 = 10"
proof -
  have r7: "round32 (7) = Finite (7)"
    using round32_eval [of "7" "- 21" 14680064] by (simp add: pow2_def)
  have p7: "round32 (93952411 / 134217728) = Finite (11744051 / 16777216)"
    using round32_eval [of "93952411 / 134217728" "- 24" 11744051] by (simp add: pow2_def)
  have a0: "round32 (53687091 / 16777216) = Finite (13421773 / 4194304)"
    using round32_eval [of "53687091 / 16777216" "- 22" 13421773] by (simp add: pow2_def)
  have a1: "round32 (65431143 / 16777216) = Finite (8178893 / 2097152)"
    using round32_eval [of "65431143 / 16777216" "- 22" 16357786] by (simp add: pow2_def)
  have a2: "round32 (77175195 / 16777216) = Finite (9646899 / 2097152)"
    using round32_eval [of "77175195 / 16777216" "- 21" 9646899] by (simp add: pow2_def)
  have a3: "round32 (88919243 / 16777216) = Finite (11114905 / 2097152)"
    using round32_eval [of "88919243 / 16777216" "- 21" 11114905] by (simp add: pow2_def)
  have a4: "round32 (100663291 / 16777216) = Finite (12582911 / 2097152)"
    using round32_eval [of "100663291 / 16777216" "- 21" 12582911] by (simp add: pow2_def)
  have a5: "round32 (112407339 / 16777216) = Finite (14050917 / 2097152)"
    using round32_eval [of "112407339 / 16777216" "- 21" 14050917] by (simp add: pow2_def)
  have a6: "round32 (124151387 / 16777216) = Finite (15518923 / 2097152)"
    using round32_eval [of "124151387 / 16777216" "- 21" 15518923] by (simp add: pow2_def)
  have a7: "round32 (135895435 / 16777216) = Finite (8493465 / 1048576)"
    using round32_eval [of "135895435 / 16777216" "- 20" 8493465] by (simp add: pow2_def)
  have a8: "round32 (147639491 / 16777216) = Finite (2306867 / 262144)"
    using round32_eval [of "147639491 / 16777216" "- 20" 9227468] by (simp add: pow2_def)
  have a9: "round32 (159383539 / 16777216) = Finite (9961471 / 1048576)"
    using round32_eval [of "159383539 / 16777216" "- 20" 9961471] by (simp add: pow2_def)
  have a10: "round32 (171127587 / 16777216) = Finite (5347737 / 524288)"
    using round32_eval [of "171127587 / 16777216" "- 20" 10695474] by (simp add: pow2_def)
  have a11: "round32 (182871635 / 16777216) = Finite (11429477 / 1048576)"
    using round32_eval [of "182871635 / 16777216" "- 20" 11429477] by (simp add: pow2_def)
  have a12: "round32 (194615683 / 16777216) = Finite (1520435 / 131072)"
    using round32_eval [of "194615683 / 16777216" "- 20" 12163480] by (simp add: pow2_def)
  have a13: "round32 (206359731 / 16777216) = Finite (12897483 / 1048576)"
    using round32_eval [of "206359731 / 16777216" "- 20" 12897483] by (simp add: pow2_def)
  have a14: "round32 (218103779 / 16777216) = Finite (6815743 / 524288)"
    using round32_eval [of "218103779 / 16777216" "- 20" 13631486] by (simp add: pow2_def)
  have a15: "round32 (229847827 / 16777216) = Finite (14365489 / 1048576)"
    using round32_eval [of "229847827 / 16777216" "- 20" 14365489] by (simp add: pow2_def)
  have a16: "round32 (241591875 / 16777216) = Finite (3774873 / 262144)"
    using round32_eval [of "241591875 / 16777216" "- 20" 15099492] by (simp add: pow2_def)
  have a17: "round32 (253335923 / 16777216) = Finite (15833495 / 1048576)"
    using round32_eval [of "253335923 / 16777216" "- 20" 15833495] by (simp add: pow2_def)
  have a18: "round32 (265079971 / 16777216) = Finite (8283749 / 524288)"
    using round32_eval [of "265079971 / 16777216" "- 20" 16567498] by (simp add: pow2_def)
  have a19: "round32 (276824019 / 16777216) = Finite (8650751 / 524288)"
    using round32_eval [of "276824019 / 16777216" "- 19" 8650751] by (simp add: pow2_def)
  have a20: "round32 (288568083 / 16777216) = Finite (9017753 / 524288)"
    using round32_eval [of "288568083 / 16777216" "- 19" 9017753] by (simp add: pow2_def)
  have a21: "round32 (300312147 / 16777216) = Finite (9384755 / 524288)"
    using round32_eval [of "300312147 / 16777216" "- 19" 9384755] by (simp add: pow2_def)
  have a22: "round32 (312056211 / 16777216) = Finite (9751757 / 524288)"
    using round32_eval [of "312056211 / 16777216" "- 19" 9751757] by (simp add: pow2_def)
  have a23: "round32 (323800275 / 16777216) = Finite (10118759 / 524288)"
    using round32_eval [of "323800275 / 16777216" "- 19" 10118759] by (simp add: pow2_def)
  have a24: "round32 (335544339 / 16777216) = Finite (10485761 / 524288)"
    using round32_eval [of "335544339 / 16777216" "- 19" 10485761] by (simp add: pow2_def)
  show ?thesis
    by (simp add: eval_nat_numeral speed_after_scroll_def adjusted_MovementSpeed_def Let_def
        round32_tenth r7 p7 a0 a1 a2 a3 a4 a5 a6 a7 a8 a9 a10 a11 a12 a13 a14 a15 a16 a17 a18 a19 a20 a21 a22 a23 a24)
qed

lemma scroll_callback_keeps_rounded_20:
  "map_option MovementSpeed (g_pCamera (scroll_callback 0 175.000001 sampleView)) = Some 20"
proof -
  have c: "g_pCamera sampleView = Some (the (g_pCamera sampleView))"
    and v: "MovementSpeed (the (g_pCamera sampleView)) = 2.5"
    by (simp_all add: sampleView_def ViewManager_new_def sampleCamera_def)
  from scroll_callback_speed [OF c, of 0 "175.000001"] v speed_after_scroll_rounds_to_20
  show ?thesis by simp
qed

lemma scroll_callbacks_25_events:
  "map_option MovementSpeed (g_pCamera (scroll_callbacks (replicate 25 (0, 7)) sampleView)) = Some 10"
proof -
  have c: "g_pCamera sampleView = Some (the (g_pCamera sampleView))"
    and v: "MovementSpeed (the (g_pCamera sampleView)) = 2.5"
    by (simp_all add: sampleView_def ViewManager_new_def sampleCamera_def)
  from scroll_callbacks_speed [OF c, of "replicate 25 (0, 7)"] v speed_after_25_events
  show ?thesis by simp
qed

lemma scroll_callbacks_range:
  assumes "g_pCamera s = Some cam" and "0.1 \<le> MovementSpeed cam"
  shows "\<exists>cam'. g_pCamera (scroll_callbacks events s) = Some cam'
           \<and> 0.1 \<le> MovementSpeed cam'
           \<and> (events \<noteq> [] \<or> MovementSpeed cam \<le> 20 \<longrightarrow> MovementSpeed cam' \<le> 20)"
  using assms
proof (induction events arbitrary: s cam)
  case Nil
  then show ?case by simp
next
  case (Cons e events)
  obtain xoffset yoffset where e: "e = (xoffset, yoffset)" by (cases e)
  let ?cam1 = "cam\<lparr>MovementSpeed := speed_after_scroll (MovementSpeed cam) yoffset\<rparr>"
  have c1: "g_pCamera (scroll_callback xoffset yoffset s) = Some ?cam1"
    by (rule scroll_callback_speed [OF Cons.prems(1)])
  have r: "0.1 \<le> MovementSpeed ?cam1" "MovementSpeed ?cam1 \<le> 20"
    using speed_after_scroll_range [of "MovementSpeed cam" yoffset] by simp_all
  from Cons.IH [OF c1 r(1)] r(2) e show ?case by auto
qed

text \<open>
  C4, as stated, fails before any event: a camera whose speed is 25 has a speed of at least
  0.1, and after the empty run of scroll events its speed is still 25, above 20.
\<close>

theorem scroll_callbacks_no_event_counterexample:
  "g_pCamera fastView = Some fastCamera
   \<and> 0.1 \<le> MovementSpeed fastCamera
   \<and> g_pCamera (scroll_callbacks [] fastView) = Some fastCamera
   \<and> 20 < MovementSpeed fastCamera"
  by (simp add: fastView_def fastCamera_def)

text \<open>
  C4, amended. With a camera whose movement speed is at least 0.1, after any run of scroll
  events the speed is at least 0.1, and at most 20 as soon as one event was handled (or when
  it started at most 20). One event leaves the speed \<open>speed_after_scroll\<close> gives; when the
  adjusted value (the float that \<open>MovementSpeed += static_cast<float>(yoffset) * 0.1f\<close>
  computes) exceeds 20, that is exactly 10.
\<close>

theorem scroll_callbacks_MovementSpeed:
  assumes "g_pCamera s = Some cam" and "0.1 \<le> MovementSpeed cam"
  shows "(\<exists>cam'. g_pCamera (scroll_callbacks events s) = Some cam'
            \<and> 0.1 \<le> MovementSpeed cam'
            \<and> (events \<noteq> [] \<or> MovementSpeed cam \<le> 20 \<longrightarrow> MovementSpeed cam' \<le> 20))
       \<and> (\<exists>cam'. g_pCamera (scroll_callback xoffset yoffset s) = Some cam'
            \<and> MovementSpeed cam' = speed_after_scroll (MovementSpeed cam) yoffset
            \<and> (float_less (Finite 20) (adjusted_MovementSpeed (MovementSpeed cam) yoffset)
                  \<longrightarrow> MovementSpeed cam' = 10))"
proof -
  let ?v = "adjusted_MovementSpeed (MovementSpeed cam) yoffset"
  let ?cam1 = "cam\<lparr>MovementSpeed := speed_after_scroll (MovementSpeed cam) yoffset\<rparr>"
  have c1: "g_pCamera (scroll_callback xoffset yoffset s) = Some ?cam1"
    by (rule scroll_callback_speed [OF assms(1)])
  have reset: "speed_after_scroll (MovementSpeed cam) yoffset = 10" if "float_less (Finite 20) ?v"
    using that by (cases ?v) (simp_all add: speed_after_scroll_def Let_def)
  from c1 reset scroll_callbacks_range [OF assms, of events] show ?thesis by simp
qed

theorem scroll_callbacks_MovementSpeed_witness:
  "(\<exists>cam'. g_pCamera (scroll_callbacks [(0, 100), (0, - 500), (0, 3)] sampleView) = Some cam'
      \<and> 0.1 \<le> MovementSpeed cam' \<and> MovementSpeed cam' \<le> 20)
   \<and> (\<exists>cam'. g_pCamera (scroll_callback 0 200 sampleView) = Some cam' \<and> MovementSpeed cam' = 10)"
proof -
  have c: "g_pCamera sampleView = Some (the (g_pCamera sampleView))"
    and v: "MovementSpeed (the (g_pCamera sampleView)) = 2.5"
    by (simp_all add: sampleView_def ViewManager_new_def sampleCamera_def)
  have r200: "round32 (200) = Finite (200)"
    using round32_eval [of "200" "- 16" 13107200] by (simp add: pow2_def)
  have p200: "round32 (335544325 / 16777216) = Finite (20)"
    using round32_eval [of "335544325 / 16777216" "- 19" 10485760] by (simp add: pow2_def)
  have s200: "round32 (45 / 2) = Finite (45 / 2)"
    using round32_eval [of "45 / 2" "- 19" 11796480] by (simp add: pow2_def)
  have a: "adjusted_MovementSpeed 2.5 200 = Finite 22.5"
    by (simp add: adjusted_MovementSpeed_def round32_tenth r200 p200 s200)
  from scroll_callbacks_MovementSpeed
         [OF c, of "[(0, 100), (0, - 500), (0, 3)]" 0 200] v a
  show ?thesis by simp blast
qed

section \<open>Keys and the frame\<close>

lemma ProcessKeyboardEvents_mode:
  assumes "g_pCamera s = Some cam"
  shows "perspectiveProjection (ProcessKeyboardEvents pressed s) =
           (if pressed GLFW_KEY_O then False
            else if pressed GLFW_KEY_P then True else perspectiveProjection s)"
  using assms by (simp add: ProcessKeyboardEvents_def Let_def)

lemma ProcessKeyboardEvents_camera:
  assumes "g_pCamera s = Some cam"
  shows "\<exists>cam'. g_pCamera (ProcessKeyboardEvents pressed s) = Some cam' \<and> Zoom cam' = Zoom cam"
  using assms by (simp add: ProcessKeyboardEvents_def Let_def)

lemma ProcessKeyboardEvents_shader:
  "m_pShaderManager (ProcessKeyboardEvents pressed s) = m_pShaderManager s"
  by (simp add: ProcessKeyboardEvents_def Let_def split: option.splits)

text \<open>
  C10. In one keyboard pass with a camera, the O key is tested after the P key: with both
  held the pass ends in orthographic mode; with P held alone in perspective mode the mode
  stays perspective, and with O held in orthographic mode it stays orthographic.
\<close>

theorem ProcessKeyboardEvents_P_then_O:
  assumes "g_pCamera s = Some cam"
  shows "(pressed GLFW_KEY_P \<and> pressed GLFW_KEY_O
            \<longrightarrow> \<not> perspectiveProjection (ProcessKeyboardEvents pressed s))
       \<and> (pressed GLFW_KEY_P \<and> \<not> pressed GLFW_KEY_O \<and> perspectiveProjection s
            \<longrightarrow> perspectiveProjection (ProcessKeyboardEvents pressed s))
       \<and> (pressed GLFW_KEY_O \<and> \<not> perspectiveProjection s
            \<longrightarrow> \<not> perspectiveProjection (ProcessKeyboardEvents pressed s))"
  by (simp add: ProcessKeyboardEvents_mode [OF assms])

theorem ProcessKeyboardEvents_P_then_O_witness:
  "\<not> perspectiveProjection
        (ProcessKeyboardEvents (\<lambda>k. k = GLFW_KEY_P \<or> k = GLFW_KEY_O) sampleView)
   \<and> perspectiveProjection (ProcessKeyboardEvents (\<lambda>k. k = GLFW_KEY_P) sampleView)
   \<and> \<not> perspectiveProjection
        (ProcessKeyboardEvents (\<lambda>k. k = GLFW_KEY_O) (sampleView\<lparr>perspectiveProjection := False\<rparr>))"
  using ProcessKeyboardEvents_P_then_O
      [where s = sampleView and pressed = "\<lambda>k. k = GLFW_KEY_P \<or> k = GLFW_KEY_O"]
    ProcessKeyboardEvents_P_then_O
      [where s = sampleView and pressed = "\<lambda>k. k = GLFW_KEY_P"]
    ProcessKeyboardEvents_P_then_O
      [where s = "sampleView\<lparr>perspectiveProjection := False\<rparr>" and pressed = "\<lambda>k. k = GLFW_KEY_O"]
  by (simp add: sampleView_def ViewManager_new_def)

text \<open>
  C5. In a frame whose keyboard pass ends in orthographic mode (O is held, or the mode was
  orthographic and P is not held), \<open>PrepareSceneView\<close> leaves the camera at Position
  (0,5,14), Front (0,-0.2,-1) and Up (0,1,0), whatever the camera was before.
\<close>

theorem PrepareSceneView_orthographic_reset:
  assumes "g_pCamera s = Some cam"
    and "pressed GLFW_KEY_O \<or> (\<not> pressed GLFW_KEY_P \<and> \<not> perspectiveProjection s)"
  shows "\<exists>s' cam'. PrepareSceneView perspective GetViewMatrix currentFrame pressed s = Inr s'
           \<and> \<not> perspectiveProjection s'
           \<and> g_pCamera s' = Some cam'
           \<and> Position cam' = vec3 0 5 14 \<and> Front cam' = vec3 0 (- 0.2) (- 1) \<and> Up cam' = vec3 0 1 0"
proof -
  let ?s1 = "s\<lparr>gDeltaTime := currentFrame - gLastFrame s, gLastFrame := currentFrame\<rparr>"
  have c: "g_pCamera ?s1 = Some cam" using assms(1) by simp
  from ProcessKeyboardEvents_camera [OF c, of pressed]
  obtain cam2 where cam2: "g_pCamera (ProcessKeyboardEvents pressed ?s1) = Some cam2" by blast
  have mode: "\<not> perspectiveProjection (ProcessKeyboardEvents pressed ?s1)"
    using assms(2) by (auto simp: ProcessKeyboardEvents_mode [OF c])
  show ?thesis
    using cam2 mode by (simp add: PrepareSceneView_def Let_def split: option.splits)
qed

theorem PrepareSceneView_orthographic_reset_witness:
  "\<exists>s' cam'. PrepareSceneView samplePerspective sampleGetViewMatrix 1
                (\<lambda>k. k = GLFW_KEY_O) sampleView = Inr s'
     \<and> \<not> perspectiveProjection s'
     \<and> g_pCamera s' = Some cam'
     \<and> Position cam' = vec3 0 5 14 \<and> Front cam' = vec3 0 (- 0.2) (- 1) \<and> Up cam' = vec3 0 1 0"
  using PrepareSceneView_orthographic_reset
    [where s = sampleView and pressed = "\<lambda>k. k = GLFW_KEY_O" and currentFrame = 1
       and perspective = samplePerspective and GetViewMatrix = sampleGetViewMatrix]
  by (simp add: sampleView_def ViewManager_new_def)

text \<open>
  C6. In every frame, in either mode and whatever keys are held, the matrix set for the
  uniform \<open>projection\<close> is the perspective matrix of the camera's zoom (in radians), the
  aspect 1000/800 and the planes 0.1 and 100: the matrix of the orthographic branch is
  never the one uploaded.
\<close>

theorem PrepareSceneView_projection:
  assumes "g_pCamera s = Some cam" and "m_pShaderManager s = Some shader"
  shows "\<exists>s' shader'. PrepareSceneView perspective GetViewMatrix currentFrame pressed s = Inr s'
           \<and> m_pShaderManager s' = Some shader'
           \<and> shader' ''projection'' =
               Some (Mat4Value (perspective (radians (Zoom cam)) (1000 / 800) 0.1 100))"
proof -
  let ?s1 = "s\<lparr>gDeltaTime := currentFrame - gLastFrame s, gLastFrame := currentFrame\<rparr>"
  have c: "g_pCamera ?s1 = Some cam" using assms(1) by simp
  from ProcessKeyboardEvents_camera [OF c, of pressed]
  obtain cam2 where cam2: "g_pCamera (ProcessKeyboardEvents pressed ?s1) = Some cam2"
    "Zoom cam2 = Zoom cam" by blast
  have sh: "m_pShaderManager (ProcessKeyboardEvents pressed ?s1) = Some shader"
    using assms(2) by (simp add: ProcessKeyboardEvents_shader)
  show ?thesis
    using cam2 sh
    by (simp add: PrepareSceneView_def Let_def g_ProjectionName_def g_ViewName_def
        WINDOW_WIDTH_def WINDOW_HEIGHT_def)
qed

theorem PrepareSceneView_projection_witness:
  "\<exists>s' shader'. PrepareSceneView samplePerspective sampleGetViewMatrix 1
                   (\<lambda>k. k = GLFW_KEY_O) sampleView = Inr s'
     \<and> m_pShaderManager s' = Some shader'
     \<and> shader' ''projection'' = Some (Mat4Value [radians 80, 1000 / 800, 0.1, 100])"
proof -
  have c: "g_pCamera sampleView = Some (the (g_pCamera sampleView))"
    by (simp add: sampleView_def ViewManager_new_def)
  have sh: "m_pShaderManager sampleView = Some (\<lambda>name. None)"
    by (simp add: sampleView_def ViewManager_new_def)
  have z: "Zoom (the (g_pCamera sampleView)) = 80"
    by (simp add: sampleView_def ViewManager_new_def)
  from PrepareSceneView_projection
         [OF c sh, of samplePerspective sampleGetViewMatrix 1 "\<lambda>k. k = GLFW_KEY_O"] z
  show ?thesis by (simp add: samplePerspective_def)
qed






end
